theory Spec2Isabelle
  imports Complex_Main
begin

section \<open>Data model (src/types.ts)\<close>

text \<open>
  \<^verbatim>\<open>interface UserProfile { uid: string; username: string; email: string }\<close> and
  \<^verbatim>\<open>interface MoodLog { date: string; value: MoodValue; timestamp: number }\<close>.
  \<open>MoodValue\<close> is a numeric enum (-3 .. 3); at run time it is a number, modelled by \<open>int\<close>.
  The field \<open>value\<close> is written \<open>val\<close> here.
\<close>

record UserProfile =
  uid :: string
  username :: string
  email :: string

record MoodLog =
  date :: string
  val :: int
  timestamp :: int

section \<open>The built-in Date (ECMAScript, section "Date objects")\<close>

text \<open>
  A Date holds a time value: a number of milliseconds. The source only uses the local-time
  methods (\<open>getDay\<close>, \<open>getDate\<close>, \<open>setDate\<close>, \<open>setHours\<close>, \<open>getFullYear\<close>,
  \<open>getMonth\<close>, \<open>new Date(y, m, d)\<close>) and compares Dates; the model takes time values in
  local time (a zone of fixed offset, where the offset cancels in every comparison), as
  unbounded integers (the range limit of \<open>TimeClip\<close> is left out). An Invalid Date (time value
  NaN) is \<open>None\<close> where one can arise.
\<close>

definition msPerDay :: int where
  "msPerDay = 86400000"

definition Day :: "int \<Rightarrow> int" where
  "Day t = t div msPerDay"

definition TimeWithinDay :: "int \<Rightarrow> int" where
  "TimeWithinDay t = t mod msPerDay"

definition WeekDay :: "int \<Rightarrow> int" where
  "WeekDay t = (Day t + 4) mod 7"

definition DayFromYear :: "int \<Rightarrow> int" where
  "DayFromYear y =
     365 * (y - 1970) + (y - 1969) div 4 - (y - 1901) div 100 + (y - 1601) div 400"

definition isLeapYear :: "int \<Rightarrow> bool" where
  "isLeapYear y = ((y mod 4 = 0 \<and> y mod 100 \<noteq> 0) \<or> y mod 400 = 0)"

text \<open>
  \<open>YearFromTime(t)\<close> is the largest \<open>y\<close> with \<open>TimeFromYear(y) \<le> t\<close>. It is computed from the
  estimate \<open>1970 + 400 * d / 146097\<close>, which is off by at most one (lemma \<open>YearFromDay_bounds\<close>).
\<close>

definition YearFromDay :: "int \<Rightarrow> int" where
  "YearFromDay d =
     (let y = 1970 + (400 * d) div 146097
      in if DayFromYear (y + 1) \<le> d then y + 1
         else if DayFromYear y \<le> d then y
         else y - 1)"

definition YearFromTime :: "int \<Rightarrow> int" where
  "YearFromTime t = YearFromDay (Day t)"

definition InLeapYear :: "int \<Rightarrow> int" where
  "InLeapYear t = (if isLeapYear (YearFromTime t) then 1 else 0)"

definition DayWithinYear :: "int \<Rightarrow> int" where
  "DayWithinYear t = Day t - DayFromYear (YearFromTime t)"

definition MonthFromTime :: "int \<Rightarrow> int" where
  "MonthFromTime t =
     (let d = DayWithinYear t; l = InLeapYear t
      in if d < 31 then 0
         else if d < 59 + l then 1
         else if d < 90 + l then 2
         else if d < 120 + l then 3
         else if d < 151 + l then 4
         else if d < 181 + l then 5
         else if d < 212 + l then 6
         else if d < 243 + l then 7
         else if d < 273 + l then 8
         else if d < 304 + l then 9
         else if d < 334 + l then 10
         else 11)"

definition DateFromTime :: "int \<Rightarrow> int" where
  "DateFromTime t =
     (let d = DayWithinYear t; l = InLeapYear t; m = MonthFromTime t
      in if m = 0 then d + 1
         else if m = 1 then d - 30
         else if m = 2 then d - 58 - l
         else if m = 3 then d - 89 - l
         else if m = 4 then d - 119 - l
         else if m = 5 then d - 150 - l
         else if m = 6 then d - 180 - l
         else if m = 7 then d - 211 - l
         else if m = 8 then d - 242 - l
         else if m = 9 then d - 272 - l
         else if m = 10 then d - 303 - l
         else d - 333 - l)"

definition MakeTime :: "int \<Rightarrow> int \<Rightarrow> int \<Rightarrow> int \<Rightarrow> int" where
  "MakeTime h m s ms = h * 3600000 + m * 60000 + s * 1000 + ms"

text \<open>The number of days of year \<open>y\<close> before its month \<open>mn\<close> (0 .. 11).\<close>

definition daysBeforeMonth :: "int \<Rightarrow> int \<Rightarrow> int" where
  "daysBeforeMonth y mn =
     (let l = (if isLeapYear y then 1 else 0)
      in if mn = 0 then 0
         else if mn = 1 then 31
         else if mn = 2 then 59 + l
         else if mn = 3 then 90 + l
         else if mn = 4 then 120 + l
         else if mn = 5 then 151 + l
         else if mn = 6 then 181 + l
         else if mn = 7 then 212 + l
         else if mn = 8 then 243 + l
         else if mn = 9 then 273 + l
         else if mn = 10 then 304 + l
         else 334 + l)"

text \<open>
  \<open>MakeDay(year, month, date)\<close>: the day number of the first of the month \<open>month mod 12\<close> of
  the year \<open>year + floor(month / 12)\<close>, plus \<open>date - 1\<close>; so a date below 1 or beyond the end
  of the month runs into the neighbouring months.
\<close>

definition MakeDay :: "int \<Rightarrow> int \<Rightarrow> int \<Rightarrow> int" where
  "MakeDay y m dt =
     (let ym = y + m div 12; mn = m mod 12
      in DayFromYear ym + daysBeforeMonth ym mn + dt - 1)"

definition MakeDate :: "int \<Rightarrow> int \<Rightarrow> int" where
  "MakeDate day time = day * msPerDay + time"

definition getDay :: "int \<Rightarrow> int" where
  "getDay t = WeekDay t"

definition getDate :: "int \<Rightarrow> int" where
  "getDate t = DateFromTime t"

definition getMonth :: "int \<Rightarrow> int" where
  "getMonth t = MonthFromTime t"

definition getFullYear :: "int \<Rightarrow> int" where
  "getFullYear t = YearFromTime t"

definition setDate :: "int \<Rightarrow> int \<Rightarrow> int" where
  "setDate t dt = MakeDate (MakeDay (YearFromTime t) (MonthFromTime t) dt) (TimeWithinDay t)"

definition setHours :: "int \<Rightarrow> int \<Rightarrow> int \<Rightarrow> int \<Rightarrow> int \<Rightarrow> int" where
  "setHours t h m s ms = MakeDate (Day t) (MakeTime h m s ms)"

text \<open>
  \<open>new Date(y, m, d)\<close> on numbers that may be NaN: a NaN argument gives an Invalid Date, and
  a year from 0 to 99 stands for 1900 + year.
\<close>

definition newDate :: "int option \<Rightarrow> int option \<Rightarrow> int option \<Rightarrow> int option" where
  "newDate y m d =
     (case (y, m, d) of
        (Some y', Some m', Some d') \<Rightarrow>
          Some (MakeDate (MakeDay (if 0 \<le> y' \<and> y' \<le> 99 then 1900 + y' else y') m' d')
                         (MakeTime 0 0 0 0))
      | _ \<Rightarrow> None)"

section \<open>Strings to numbers\<close>

text \<open>
  \<open>s.split('-')\<close>: the pieces of \<open>s\<close> between the separators; never the empty list.
\<close>

fun split :: "char \<Rightarrow> string \<Rightarrow> string list" where
  "split c [] = [[]]"
| "split c (x # xs) =
     (if x = c then [] # split c xs
      else (case split c xs of
              w # ws \<Rightarrow> (x # w) # ws
            | [] \<Rightarrow> [[x]]))"

definition isDigit :: "char \<Rightarrow> bool" where
  "isDigit c = (c \<in> set ''0123456789'')"

definition digitValue :: "char \<Rightarrow> int" where
  "digitValue c = int (of_char c) - 48"

text \<open>
  \<open>Number(s)\<close> on the strings a date is made of: the empty string is 0, a string of decimal
  digits is its value, and \<open>None\<close> is NaN. (JavaScript also reads signs, fractions,
  exponents, radix prefixes and surrounding blanks; a piece of a YYYY-MM-DD date has none
  of them, and the model gives NaN there.)
\<close>

definition Number :: "string \<Rightarrow> int option" where
  "Number s =
     (if list_all isDigit s then Some (foldl (\<lambda>acc c. 10 * acc + digitValue c) 0 s)
      else None)"

section \<open>Statistics of the profile view (Profile, in src/components/Search.tsx)\<close>

text \<open>
  \<open>x.toFixed(1)\<close>, then \<open>parseFloat\<close>: for \<open>x \<ge> 0\<close> the integer \<open>n\<close> with \<open>n / 10\<close> nearest to
  \<open>x\<close>, the larger one of two, over 10; a negative \<open>x\<close> is rounded as \<open>-x\<close> and negated.
  JavaScript numbers are modelled by reals.
\<close>

definition toFixed1 :: "real \<Rightarrow> real" where
  "toFixed1 x =
     (if x < 0 then - (real_of_int \<lfloor>- x * 10 + 1 / 2\<rfloor> / 10)
      else real_of_int \<lfloor>x * 10 + 1 / 2\<rfloor> / 10)"

definition getAverage :: "MoodLog list \<Rightarrow> real" where
  "getAverage logs =
     (if length logs = 0 then 0
      else let sum = foldl (\<lambda>acc curr. acc + val curr) 0 logs
           in toFixed1 (real_of_int sum / real (length logs)))"

definition distanceToMonday :: "int \<Rightarrow> int" where
  "distanceToMonday today =
     (let currentDay = getDay today
      in if currentDay = 0 then 6 else currentDay - 1)"

definition monday :: "int \<Rightarrow> int" where
  "monday today = setHours (setDate today (getDate today - distanceToMonday today)) 0 0 0 0"

definition sunday :: "int \<Rightarrow> int" where
  "sunday today =
     (let m = monday today
      in setHours (setDate m (getDate m + 6)) 23 59 59 999)"

text \<open>
  \<^verbatim>\<open>const [y, mo, d] = m.date.split('-').map(Number); new Date(y, mo - 1, d)\<close>: a missing
  piece is \<open>undefined\<close>, which makes the Date invalid.
\<close>

definition dateObj :: "MoodLog \<Rightarrow> int option" where
  "dateObj m =
     (case map Number (split CHR ''-'' (date m)) of
        y # mo # d # _ \<Rightarrow> newDate y (map_option (\<lambda>x. x - 1) mo) d
      | _ \<Rightarrow> None)"

definition currentWeekLogs :: "int \<Rightarrow> MoodLog list \<Rightarrow> MoodLog list" where
  "currentWeekLogs today moodList =
     filter (\<lambda>m. case dateObj m of
                   None \<Rightarrow> False
                 | Some t \<Rightarrow> t \<ge> monday today \<and> t \<le> sunday today) moodList"

definition currentMonthLogs :: "int \<Rightarrow> MoodLog list \<Rightarrow> MoodLog list" where
  "currentMonthLogs today moodList =
     filter (\<lambda>m. case map Number (split CHR ''-'' (date m)) of
                   y # mo # _ \<Rightarrow>
                     y = Some (getFullYear today) \<and>
                     map_option (\<lambda>x. x - 1) mo = Some (getMonth today)
                 | _ \<Rightarrow> False) moodList"

text \<open>
  The entries of \<open>stats\<close>: \<open>{ label, value, count }\<close>. The three labels (texts of the view)
  are named by constructors, and the field \<open>value\<close> is written \<open>average\<close> here.
\<close>

datatype stat_label = Week | Month | AllTime

record stat =
  label :: stat_label
  average :: real
  count :: nat

definition stats :: "int \<Rightarrow> MoodLog list \<Rightarrow> stat list" where
  "stats today moodList =
     [\<lparr>label = Week, average = getAverage (currentWeekLogs today moodList),
        count = length (currentWeekLogs today moodList)\<rparr>,
      \<lparr>label = Month, average = getAverage (currentMonthLogs today moodList),
        count = length (currentMonthLogs today moodList)\<rparr>,
      \<lparr>label = AllTime, average = getAverage moodList, count = length moodList\<rparr>]"

text \<open>
  The test \<^verbatim>\<open>stat.count > 0\<close> by which the view shows a summary's value, colour and mood
  label, or else a dash and the "no data" text.
\<close>

definition hasData :: "stat \<Rightarrow> bool" where
  "hasData s = (count s > 0)"

section \<open>Strings of user input\<close>

text \<open>
  Characters are the 8-bit characters of HOL, read as the first 256 code points of Unicode.
  There \<open>toLowerCase\<close> maps A .. Z and the capital letters from U+00C0 to U+00DE (without the
  multiplication sign U+00D7) to the letter 32 places on, and \<open>trim\<close> strips tab, line feed,
  vertical tab, form feed, carriage return, space and the no-break space U+00A0 from both
  ends. The letters and blanks of Unicode beyond these are outside the model.
\<close>

definition toLowerChar :: "char \<Rightarrow> char" where
  "toLowerChar c =
     (let n = (of_char c :: nat)
      in if (65 \<le> n \<and> n \<le> 90) \<or> (192 \<le> n \<and> n \<le> 222 \<and> n \<noteq> 215) then char_of (n + 32)
         else c)"

definition toLowerCase :: "string \<Rightarrow> string" where
  "toLowerCase s = map toLowerChar s"

definition isWhiteSpace :: "char \<Rightarrow> bool" where
  "isWhiteSpace c = ((of_char c :: nat) \<in> {9, 10, 11, 12, 13, 32, 160})"

definition trim :: "string \<Rightarrow> string" where
  "trim s = rev (dropWhile isWhiteSpace (rev (dropWhile isWhiteSpace s)))"

definition strIncludes :: "string \<Rightarrow> char \<Rightarrow> bool" where
  "strIncludes s c = (c \<in> set s)"

text \<open>Truthiness of \<open>string | null\<close>: \<open>null\<close> and the empty string are falsy.\<close>

definition truthy :: "string option \<Rightarrow> bool" where
  "truthy v = (case v of None \<Rightarrow> False | Some s \<Rightarrow> s \<noteq> [])"

section \<open>The hosted services and the state of the client\<close>

text \<open>
  The three path families of the hosted store:
  \<^verbatim>\<open>usernames/${n}\<close>, \<^verbatim>\<open>users/${u}/profile\<close>, \<^verbatim>\<open>users/${u}/moods\<close> and
  \<^verbatim>\<open>users/${u}/moods/${d}\<close>, with the interpolated strings as they are.
\<close>

datatype path =
    UsernamePath string
  | ProfilePath string
  | MoodsPath string
  | MoodPath string string

definition pathString :: "path \<Rightarrow> string" where
  "pathString p =
     (case p of
        UsernamePath n \<Rightarrow> ''usernames/'' @ n
      | ProfilePath u \<Rightarrow> ''users/'' @ u @ ''/profile''
      | MoodsPath u \<Rightarrow> ''users/'' @ u @ ''/moods''
      | MoodPath u d \<Rightarrow> ''users/'' @ u @ ''/moods/'' @ d)"

datatype request =
    DbGet path
  | DbSet path
  | DbRemove path
  | DbListen path
  | AuthSignIn string string
  | AuthCreateUser string string

text \<open>
  What the code throws: its own three errors (each with a fixed, non-empty message) and
  the rejection of a request by a hosted service, with the message the service gives.
\<close>

datatype exn =
    UsernameNotFound
  | EmailNotAvailable
  | UsernameTaken
  | SdkError string

text \<open>The texts the forms show: the empty text, the fixed texts, or the message of an error.\<close>

datatype message =
    NoMessage
  | LoginFailed
  | UsernameTooShort
  | PasswordsDiffer
  | RegistrationFailed
  | ErrorMessage exn

datatype arg = Str string | Exn exn

datatype console_entry =
    ConsoleLog "arg list"
  | ConsoleWarn "arg list"
  | ConsoleError "arg list"

text \<open>
  Modelled from the spec: the hosted store and identity provider (\<open>firebase/database\<close> and
  \<open>firebase/auth\<close>), of which the repository holds only the calls. The store is the three
  families of the spec's section 6; a user without moods has the empty mapping. \<open>rejects\<close>
  tells which requests a service refuses (a network or permission failure, a path the SDK
  does not take) and with which message; \<open>authUser\<close> is the user (its uid, or \<open>null\<close>) of the
  credential a granted sign-in or sign-up returns. \<open>issued\<close> lists the requests sent, the
  latest last. A subscriber's callback is named by a number, and \<open>calls\<close> lists the calls
  made to callbacks with their arguments, the latest last. \<open>loading\<close> and \<open>error\<close> are the
  state of the Auth component.
\<close>

record world =
  usernames :: "string \<rightharpoonup> string"
  profiles :: "string \<rightharpoonup> UserProfile"
  moods :: "string \<Rightarrow> (string \<rightharpoonup> MoodLog)"
  rejects :: "request \<Rightarrow> string option"
  authUser :: "request \<Rightarrow> string option"
  issued :: "request list"
  listeners :: "(string \<times> nat) list"
  calls :: "(nat \<times> (string \<rightharpoonup> MoodLog)) list"
  console :: "console_entry list"
  loading :: bool
  error :: message

subsection \<open>Asynchronous code: a result or an exception, and the new state\<close>

datatype 'a outcome = Returned 'a | Thrown exn

type_synonym 'a async = "world \<Rightarrow> 'a outcome \<times> world"

definition returns :: "'a \<Rightarrow> 'a async" where
  "returns x w = (Returned x, w)"

definition throw :: "exn \<Rightarrow> 'a async" where
  "throw e w = (Thrown e, w)"

definition await :: "'a async \<Rightarrow> ('a \<Rightarrow> 'b async) \<Rightarrow> 'b async" where
  "await m k w =
     (case m w of
        (Returned x, w') \<Rightarrow> k x w'
      | (Thrown e, w') \<Rightarrow> (Thrown e, w'))"

definition seq :: "unit async \<Rightarrow> 'b async \<Rightarrow> 'b async" where
  "seq m k = await m (\<lambda>_. k)"

definition tryCatch :: "'a async \<Rightarrow> (exn \<Rightarrow> 'a async) \<Rightarrow> 'a async" where
  "tryCatch m h w =
     (case m w of
        (Returned x, w') \<Rightarrow> (Returned x, w')
      | (Thrown e, w') \<Rightarrow> h e w')"

definition tryFinally :: "'a async \<Rightarrow> unit async \<Rightarrow> 'a async" where
  "tryFinally m f w =
     (case m w of
        (r, w') \<Rightarrow> (case f w' of
                      (Returned _, w'') \<Rightarrow> (r, w'')
                    | (Thrown e, w'') \<Rightarrow> (Thrown e, w'')))"

definition modify :: "(world \<Rightarrow> world) \<Rightarrow> unit async" where
  "modify f w = (Returned (), f w)"

definition consoleLog :: "arg list \<Rightarrow> unit async" where
  "consoleLog args = modify (\<lambda>w. w\<lparr>console := console w @ [ConsoleLog args]\<rparr>)"

definition consoleWarn :: "arg list \<Rightarrow> unit async" where
  "consoleWarn args = modify (\<lambda>w. w\<lparr>console := console w @ [ConsoleWarn args]\<rparr>)"

definition consoleError :: "arg list \<Rightarrow> unit async" where
  "consoleError args = modify (\<lambda>w. w\<lparr>console := console w @ [ConsoleError args]\<rparr>)"

definition setLoading :: "bool \<Rightarrow> unit async" where
  "setLoading b = modify (\<lambda>w. w\<lparr>loading := b\<rparr>)"

definition setError :: "message \<Rightarrow> unit async" where
  "setError m = modify (\<lambda>w. w\<lparr>error := m\<rparr>)"

subsection \<open>The calls of the SDK\<close>

text \<open>A request is recorded; a refused one throws the service's error and changes nothing.\<close>

definition send :: "request \<Rightarrow> unit async" where
  "send r w =
     (let w' = w\<lparr>issued := issued w @ [r]\<rparr>
      in case rejects w r of
           Some msg \<Rightarrow> (Thrown (SdkError msg), w')
         | None \<Rightarrow> (Returned (), w'))"

text \<open>
  The store calls the value listeners of \<^verbatim>\<open>users/${u}/moods\<close> after each change below that
  path; the listener that \<open>subscribeToMoods\<close> installs passes \<open>snapshot.val()\<close> on if the
  snapshot exists and \<open>{}\<close> otherwise.
\<close>

definition snapshotArg :: "(string \<rightharpoonup> MoodLog) \<Rightarrow> (string \<rightharpoonup> MoodLog)" where
  "snapshotArg snapshot = (if snapshot \<noteq> Map.empty then snapshot else Map.empty)"

definition notify :: "string \<Rightarrow> world \<Rightarrow> world" where
  "notify u w =
     w\<lparr>calls := calls w @
          map (\<lambda>l. (snd l, snapshotArg (moods w u))) (filter (\<lambda>l. fst l = u) (listeners w))\<rparr>"

definition getUsername :: "string \<Rightarrow> string option async" where
  "getUsername n = seq (send (DbGet (UsernamePath n))) (\<lambda>w. (Returned (usernames w n), w))"

definition setUsername :: "string \<Rightarrow> string \<Rightarrow> unit async" where
  "setUsername n v =
     seq (send (DbSet (UsernamePath n))) (modify (\<lambda>w. w\<lparr>usernames := (usernames w)(n \<mapsto> v)\<rparr>))"

definition getProfile :: "string \<Rightarrow> UserProfile option async" where
  "getProfile u = seq (send (DbGet (ProfilePath u))) (\<lambda>w. (Returned (profiles w u), w))"

definition setProfile :: "string \<Rightarrow> UserProfile \<Rightarrow> unit async" where
  "setProfile u p =
     seq (send (DbSet (ProfilePath u))) (modify (\<lambda>w. w\<lparr>profiles := (profiles w)(u \<mapsto> p)\<rparr>))"

definition getMoods :: "string \<Rightarrow> (string \<rightharpoonup> MoodLog) async" where
  "getMoods u = seq (send (DbGet (MoodsPath u))) (\<lambda>w. (Returned (moods w u), w))"

definition setMood :: "string \<Rightarrow> string \<Rightarrow> MoodLog \<Rightarrow> unit async" where
  "setMood u d m =
     seq (send (DbSet (MoodPath u d)))
         (modify (\<lambda>w. notify u (w\<lparr>moods := (moods w)(u := (moods w u)(d \<mapsto> m))\<rparr>)))"

definition removeMood :: "string \<Rightarrow> string \<Rightarrow> unit async" where
  "removeMood u d =
     seq (send (DbRemove (MoodPath u d)))
         (modify (\<lambda>w. notify u (w\<lparr>moods := (moods w)(u := (moods w u)(d := None))\<rparr>)))"

text \<open>
  Modelled from the spec: \<open>onValue\<close> of the SDK. It registers the listener and fires it once
  with the current state (section 4.3: "fires once immediately with current state"). What it
  returns is named by the position of the registration.
\<close>

definition onValue :: "string \<Rightarrow> nat \<Rightarrow> world \<Rightarrow> nat \<times> world" where
  "onValue u cb w =
     (let w' = w\<lparr>issued := issued w @ [DbListen (MoodsPath u)],
                 listeners := listeners w @ [(u, cb)]\<rparr>
      in (length (listeners w), w'\<lparr>calls := calls w' @ [(cb, snapshotArg (moods w' u))]\<rparr>))"

definition signInWithEmailAndPassword :: "string \<Rightarrow> string \<Rightarrow> string option async" where
  "signInWithEmailAndPassword e p =
     seq (send (AuthSignIn e p)) (\<lambda>w. (Returned (authUser w (AuthSignIn e p)), w))"

definition createUserWithEmailAndPassword :: "string \<Rightarrow> string \<Rightarrow> string option async" where
  "createUserWithEmailAndPassword e p =
     seq (send (AuthCreateUser e p)) (\<lambda>w. (Returned (authUser w (AuthCreateUser e p)), w))"

section \<open>The data access functions (src/unnamed/part_000)\<close>

definition registerUsername :: "string \<Rightarrow> string \<Rightarrow> string \<Rightarrow> unit async" where
  "registerUsername username' email' uid' =
     (let normalizedUsername = trim (toLowerCase username')
      in setUsername normalizedUsername uid')"

definition getUidByUsername :: "string \<Rightarrow> string option async" where
  "getUidByUsername username' =
     (let normalizedUsername = trim (toLowerCase username')
      in await (getUsername normalizedUsername) (\<lambda>snapshot.
           case snapshot of
             Some v \<Rightarrow> returns (Some v)
           | None \<Rightarrow> returns None))"

definition saveUserProfile :: "string \<Rightarrow> UserProfile \<Rightarrow> unit async" where
  "saveUserProfile userId profile =
     (if strIncludes userId CHR ''.'' \<or> strIncludes userId CHR ''@''
      then seq (consoleWarn
                  [Str ''Attempted to save profile with invalid path characters, skipping:'',
                   Str userId])
               (returns ())
      else setProfile userId profile)"

definition getUserProfile :: "string \<Rightarrow> UserProfile option async" where
  "getUserProfile userId =
     (if userId = [] \<or> strIncludes userId CHR ''.'' \<or> strIncludes userId CHR ''@''
      then returns None
      else tryCatch
             (await (getProfile userId) (\<lambda>snapshot.
                case snapshot of
                  Some p \<Rightarrow> returns (Some p)
                | None \<Rightarrow> returns None))
             (\<lambda>e. seq (consoleError [Str ''Error fetching user profile:'', Exn e])
                       (returns None)))"

definition saveMood :: "string \<Rightarrow> MoodLog \<Rightarrow> unit async" where
  "saveMood userId mood =
     (if strIncludes userId CHR ''.'' \<or> strIncludes userId CHR ''@'' then returns ()
      else setMood userId (date mood) mood)"

definition deleteMood :: "string \<Rightarrow> string \<Rightarrow> unit async" where
  "deleteMood userId dateStr =
     (if strIncludes userId CHR ''.'' \<or> strIncludes userId CHR ''@'' then returns ()
      else removeMood userId dateStr)"

text \<open>
  What \<open>subscribeToMoods\<close> returns: \<^verbatim>\<open>() => {}\<close>, or
  \<^verbatim>\<open>() => off(moodsRef, 'value', listener)\<close> with the path and what \<open>onValue\<close> returned.
\<close>

datatype unsubscribe = DoesNothing | CallsOff string nat

definition subscribeToMoods :: "string \<Rightarrow> nat \<Rightarrow> world \<Rightarrow> unsubscribe \<times> world" where
  "subscribeToMoods userId callback w =
     (if userId = [] \<or> strIncludes userId CHR ''.'' \<or> strIncludes userId CHR ''@''
      then (DoesNothing, w\<lparr>calls := calls w @ [(callback, Map.empty)]\<rparr>)
      else (case onValue userId callback w of
              (listener, w') \<Rightarrow> (CallsOff userId listener, w')))"


definition getUserMoods :: "string \<Rightarrow> (string \<rightharpoonup> MoodLog) async" where
  "getUserMoods userId =
     (if userId = [] \<or> strIncludes userId CHR ''.'' \<or> strIncludes userId CHR ''@''
      then returns Map.empty
      else tryCatch
             (await (getMoods userId) (\<lambda>snapshot.
                if snapshot \<noteq> Map.empty then returns snapshot else returns Map.empty))
             (\<lambda>e. seq (consoleError [Str ''Error fetching user moods:'', Exn e])
                       (returns Map.empty)))"

section \<open>The forms of the Auth component (src/unnamed/part_001)\<close>

text \<open>
  The first part of \<open>handleLogin\<close>: it settles the two variables \<open>loginEmail\<close> and
  \<open>isLegacyUser\<close>, returned as a pair.
\<close>

definition resolveLogin :: "string \<Rightarrow> (string \<times> bool) async" where
  "resolveLogin email' =
     (let loginEmail = email'; usernameInput = trim email'
      in if \<not> strIncludes loginEmail CHR ''@''
         then await (getUidByUsername usernameInput) (\<lambda>lookupValue.
                if \<not> truthy lookupValue then throw UsernameNotFound
                else if strIncludes (the lookupValue) CHR ''@''
                     then returns (the lookupValue, True)
                     else await (getUserProfile (the lookupValue)) (\<lambda>profile.
                            if truthy (map_option email profile)
                            then returns (email (the profile), False)
                            else throw EmailNotAvailable))
         else returns (loginEmail, False))"

text \<open>The inner \<open>try\<close> of \<open>handleLogin\<close>: the two repair writes, and the \<open>catch\<close> that logs.\<close>

definition autoRepair :: "string \<Rightarrow> string \<Rightarrow> string \<Rightarrow> unit async" where
  "autoRepair usernameInput loginEmail userUid =
     tryCatch
       (seq (consoleLog [Str ''Fixing legacy username mapping for:'', Str usernameInput])
       (seq (registerUsername usernameInput loginEmail userUid)
       (seq (saveUserProfile userUid
               \<lparr>uid = userUid, username = usernameInput, email = loginEmail\<rparr>)
            (consoleLog [Str ''Legacy username fixed successfully.'']))))
       (\<lambda>fixErr. consoleError [Str ''Failed to auto-fix legacy username:'', Exn fixErr])"

text \<open>
  The \<open>try\<close> block of \<open>handleLogin\<close>: the sign-in, then the repair
  (\<^verbatim>\<open>if (userCredential.user && isLegacyUser && !loginEmail.includes('@') === false)\<close>).
\<close>

definition loginBody :: "string \<Rightarrow> string \<Rightarrow> unit async" where
  "loginBody email' password =
     await (resolveLogin email') (\<lambda>(loginEmail, isLegacyUser).
       await (signInWithEmailAndPassword loginEmail password) (\<lambda>userCredential.
         if userCredential \<noteq> None \<and> isLegacyUser
            \<and> ((\<not> strIncludes loginEmail CHR ''@'') = False)
         then autoRepair (trim email') loginEmail (the userCredential)
         else returns ()))"

definition handleLogin :: "string \<Rightarrow> string \<Rightarrow> unit async" where
  "handleLogin email' password =
     seq (setLoading True)
    (seq (setError NoMessage)
    (tryFinally
       (tryCatch (loginBody email' password)
          (\<lambda>err. seq (consoleError [Exn err]) (setError LoginFailed)))
       (setLoading False)))"

text \<open>\<open>err.message || fallback\<close>: only a service's error can have the empty message.\<close>

definition hasMessage :: "exn \<Rightarrow> bool" where
  "hasMessage e = (case e of SdkError msg \<Rightarrow> msg \<noteq> [] | _ \<Rightarrow> True)"

definition handleRegister :: "string \<Rightarrow> string \<Rightarrow> string \<Rightarrow> string \<Rightarrow> unit async" where
  "handleRegister username' email' password confirmPassword =
     seq (setLoading True)
    (seq (setError NoMessage)
    (if length username' < 3
     then seq (setError UsernameTooShort) (setLoading False)
     else if password \<noteq> confirmPassword
     then seq (setError PasswordsDiffer) (setLoading False)
     else tryFinally
            (tryCatch
               (await (getUidByUsername username') (\<lambda>existingUid.
                  if truthy existingUid then throw UsernameTaken
                  else await (createUserWithEmailAndPassword email' password) (\<lambda>userCredential.
                         case userCredential of
                           Some userUid \<Rightarrow>
                             seq (registerUsername username' email' userUid)
                                 (saveUserProfile userUid
                                    \<lparr>uid = userUid, username = username', email = email'\<rparr>)
                         | None \<Rightarrow> returns ())))
               (\<lambda>err. seq (consoleError [Exn err])
                          (setError (if hasMessage err then ErrorMessage err
                                     else RegistrationFailed))))
            (setLoading False)))"

text \<open>A world with no data, no listeners and services that grant every request.\<close>

definition emptyWorld :: world where
  "emptyWorld =
     \<lparr>usernames = Map.empty, profiles = Map.empty, moods = (\<lambda>_. Map.empty),
      rejects = (\<lambda>_. None), authUser = (\<lambda>_. Some ''uid1''), issued = [], listeners = [],
      calls = [], console = [], loading = False, error = NoMessage\<rparr>"

definition legacyWorld :: world where
  "legacyWorld = emptyWorld\<lparr>usernames := [''alice'' \<mapsto> ''alice@x.y'']\<rparr>"

definition refusingWorld :: world where
  "refusingWorld =
     legacyWorld\<lparr>rejects := (\<lambda>r. if r = DbSet (UsernamePath ''alice'') then Some ''denied''
                                  else None)\<rparr>"



definition exampleMon :: MoodLog where
  "exampleMon = \<lparr>date = ''2024-04-29'', val = 2, timestamp = 1714400000000\<rparr>"


definition exampleNextMon :: MoodLog where
  "exampleNextMon = \<lparr>date = ''2024-05-06'', val = 0, timestamp = 1714580000000\<rparr>"

section \<open>The ISO week, in the words of the specification\<close>




section \<open>Relations between the states before and after\<close>

text \<open>
  \<open>keyedByUid w w'\<close>: every profile of \<open>w'\<close> was already in \<open>w\<close> or lies under the key equal
  to its \<open>uid\<close>. \<open>sameError w w'\<close>: the form shows the same text in both. \<open>upholds R m\<close>:
  running \<open>m\<close> from any state leads to a state related to it by \<open>R\<close>.
\<close>

definition keyedByUid :: "world \<Rightarrow> world \<Rightarrow> bool" where
  "keyedByUid w w' = (\<forall>k p. profiles w' k = Some p \<longrightarrow> profiles w k = Some p \<or> uid p = k)"

definition sameError :: "world \<Rightarrow> world \<Rightarrow> bool" where
  "sameError w w' = (error w' = error w)"

definition upholds :: "(world \<Rightarrow> world \<Rightarrow> bool) \<Rightarrow> 'a async \<Rightarrow> bool" where
  "upholds R m = (\<forall>w. R w (snd (m w)))"

section \<open>Calendar arithmetic\<close>




























section \<open>The calls of the SDK, step by step\<close>

lemmas async_defs = returns_def throw_def await_def seq_def tryCatch_def tryFinally_def
  modify_def consoleLog_def consoleWarn_def consoleError_def setLoading_def setError_def

lemma send_eq:
  "send r w =
     (case rejects w r of None \<Rightarrow> Returned () | Some msg \<Rightarrow> Thrown (SdkError msg),
      w\<lparr>issued := issued w @ [r]\<rparr>)"
  by (simp add: send_def Let_def split: option.splits)

lemmas sdk_defs = getUsername_def setUsername_def getProfile_def setProfile_def getMoods_def
  signInWithEmailAndPassword_def createUserWithEmailAndPassword_def send_eq


lemma notify_fields:
  "moods (notify u w) = moods w" "issued (notify u w) = issued w"
  "usernames (notify u w) = usernames w" "profiles (notify u w) = profiles w"
  "rejects (notify u w) = rejects w" "listeners (notify u w) = listeners w"
  by (simp_all add: notify_def)

lemma setMood_eq:
  "setMood u d m w =
     (case rejects w (DbSet (MoodPath u d)) of
        None \<Rightarrow> (Returned (),
                 notify u (w\<lparr>issued := issued w @ [DbSet (MoodPath u d)],
                              moods := (moods w)(u := (moods w u)(d \<mapsto> m))\<rparr>))
      | Some msg \<Rightarrow> (Thrown (SdkError msg), w\<lparr>issued := issued w @ [DbSet (MoodPath u d)]\<rparr>))"
  by (simp add: setMood_def send_eq seq_def await_def modify_def split: option.splits)

lemma removeMood_eq:
  "removeMood u d w =
     (case rejects w (DbRemove (MoodPath u d)) of
        None \<Rightarrow> (Returned (),
                 notify u (w\<lparr>issued := issued w @ [DbRemove (MoodPath u d)],
                              moods := (moods w)(u := (moods w u)(d := None))\<rparr>))
      | Some msg \<Rightarrow>
          (Thrown (SdkError msg), w\<lparr>issued := issued w @ [DbRemove (MoodPath u d)]\<rparr>))"
  by (simp add: removeMood_def send_eq seq_def await_def modify_def split: option.splits)


section \<open>Usernames up to case and surrounding blanks\<close>






section \<open>What every step leaves as it is\<close>

lemma upholds_modify: "(\<And>w. R w (f w)) \<Longrightarrow> upholds R (modify f)"
  by (simp add: upholds_def modify_def)

lemma upholds_returns: "reflp R \<Longrightarrow> upholds R (returns x)"
  by (simp add: upholds_def returns_def reflpD)

lemma upholds_throw: "reflp R \<Longrightarrow> upholds R (throw e)"
  by (simp add: upholds_def throw_def reflpD)

lemma upholds_read: "reflp R \<Longrightarrow> upholds R (\<lambda>w. (Returned (f w), w))"
  by (simp add: upholds_def reflpD)

lemma upholds_await:
  assumes t: "transp R" and m: "upholds R m" and k: "\<And>x. upholds R (k x)"
  shows "upholds R (await m k)"
  unfolding upholds_def
proof
  fix w
  obtain r w1 where e: "m w = (r, w1)" by (cases "m w")
  have 1: "R w w1" using m e by (auto simp add: upholds_def dest: spec [of _ w])
  show "R w (snd (await m k w))"
  proof (cases r)
    case (Returned x)
    have "R w1 (snd (k x w1))" using k [of x] by (simp add: upholds_def)
    with 1 have "R w (snd (k x w1))" by (rule transpD [OF t])
    then show ?thesis using e Returned by (simp add: await_def)
  next
    case (Thrown ex)
    with 1 show ?thesis using e by (simp add: await_def)
  qed
qed

lemma upholds_seq: "transp R \<Longrightarrow> upholds R m \<Longrightarrow> upholds R k \<Longrightarrow> upholds R (seq m k)"
  by (simp add: seq_def upholds_await)

lemma upholds_tryCatch:
  assumes t: "transp R" and m: "upholds R m" and h: "\<And>e. upholds R (h e)"
  shows "upholds R (tryCatch m h)"
  unfolding upholds_def
proof
  fix w
  obtain r w1 where e: "m w = (r, w1)" by (cases "m w")
  have 1: "R w w1" using m e by (auto simp add: upholds_def dest: spec [of _ w])
  show "R w (snd (tryCatch m h w))"
  proof (cases r)
    case (Returned x)
    with 1 show ?thesis using e by (simp add: tryCatch_def)
  next
    case (Thrown ex)
    have "R w1 (snd (h ex w1))" using h [of ex] by (simp add: upholds_def)
    with 1 have "R w (snd (h ex w1))" by (rule transpD [OF t])
    then show ?thesis using e Thrown by (simp add: tryCatch_def)
  qed
qed

lemma upholds_tryFinally:
  assumes t: "transp R" and m: "upholds R m" and f: "upholds R f"
  shows "upholds R (tryFinally m f)"
  unfolding upholds_def
proof
  fix w
  obtain r w1 where e: "m w = (r, w1)" by (cases "m w")
  obtain r' w2 where e': "f w1 = (r', w2)" by (cases "f w1")
  have 1: "R w w1" using m e by (auto simp add: upholds_def dest: spec [of _ w])
  have 2: "R w1 w2" using f e' by (auto simp add: upholds_def dest: spec [of _ w1])
  have "snd (tryFinally m f w) = w2"
    using e e' by (cases r') (simp_all add: tryFinally_def)
  with transpD [OF t 1 2] show "R w (snd (tryFinally m f w))" by simp
qed

lemma upholds_send: "(\<And>w r. R w (w\<lparr>issued := issued w @ [r]\<rparr>)) \<Longrightarrow> upholds R (send r)"
  by (simp add: upholds_def send_def Let_def split: option.splits)

lemma keyedByUid_order: "reflp keyedByUid" "transp keyedByUid"
proof -
  show "reflp keyedByUid" by (simp add: keyedByUid_def reflpI)
  show "transp keyedByUid" unfolding keyedByUid_def by (intro transpI) blast
qed

lemma sameError_order: "reflp sameError" "transp sameError"
  by (auto simp add: sameError_def intro!: reflpI transpI)

lemmas upholds_intros = upholds_returns upholds_throw upholds_read upholds_await
  upholds_seq upholds_tryCatch upholds_tryFinally upholds_send upholds_modify

lemmas upholds_rules = keyedByUid_order sameError_order upholds_intros

lemma unchanged:
  "profiles w' = profiles w \<Longrightarrow> keyedByUid w w'" "error w' = error w \<Longrightarrow> sameError w w'"
  by (simp_all add: keyedByUid_def sameError_def)

lemma upholds_setUsername: "upholds keyedByUid (setUsername n v)" "upholds sameError (setUsername n v)"
  by (auto simp add: setUsername_def intro!: upholds_rules unchanged)

lemma upholds_getUsername: "upholds keyedByUid (getUsername n)" "upholds sameError (getUsername n)"
  by (auto simp add: getUsername_def intro!: upholds_rules unchanged)

lemma upholds_getProfile: "upholds keyedByUid (getProfile n)" "upholds sameError (getProfile n)"
  by (auto simp add: getProfile_def intro!: upholds_rules unchanged)

lemma upholds_setProfile:
  "uid p = u \<Longrightarrow> upholds keyedByUid (setProfile u p)" "upholds sameError (setProfile u p)"
proof -
  assume "uid p = u"
  then have "upholds keyedByUid (modify (\<lambda>w. w\<lparr>profiles := (profiles w)(u \<mapsto> p)\<rparr>))"
    by (auto simp add: upholds_def modify_def keyedByUid_def)
  then show "upholds keyedByUid (setProfile u p)"
    by (auto simp add: setProfile_def intro!: upholds_rules unchanged)
next
  show "upholds sameError (setProfile u p)"
    by (auto simp add: setProfile_def intro!: upholds_rules unchanged)
qed

lemma upholds_console:
  "upholds keyedByUid (consoleLog a)" "upholds sameError (consoleLog a)"
  "upholds keyedByUid (consoleWarn a)" "upholds sameError (consoleWarn a)"
  "upholds keyedByUid (consoleError a)" "upholds sameError (consoleError a)"
  by (auto simp add: consoleLog_def consoleWarn_def consoleError_def
      intro!: upholds_modify unchanged)

lemma upholds_ui:
  "upholds keyedByUid (setLoading b)" "upholds sameError (setLoading b)"
  "upholds keyedByUid (setError msg)"
  by (auto simp add: setLoading_def setError_def intro!: upholds_modify unchanged)

lemma upholds_auth:
  "upholds keyedByUid (signInWithEmailAndPassword e p)"
  "upholds sameError (signInWithEmailAndPassword e p)"
  "upholds keyedByUid (createUserWithEmailAndPassword e p)"
  "upholds sameError (createUserWithEmailAndPassword e p)"
  by (auto simp add: signInWithEmailAndPassword_def createUserWithEmailAndPassword_def
      intro!: upholds_rules unchanged)

lemma upholds_saveUserProfile:
  "uid p = u \<Longrightarrow> upholds keyedByUid (saveUserProfile u p)"
  "upholds sameError (saveUserProfile u p)"
  by (auto simp add: saveUserProfile_def
      intro!: upholds_rules upholds_console upholds_setProfile)

lemma upholds_registerUsername:
  "upholds keyedByUid (registerUsername u e i)" "upholds sameError (registerUsername u e i)"
  by (simp_all add: registerUsername_def Let_def upholds_setUsername)

lemma upholds_getUidByUsername:
  "upholds keyedByUid (getUidByUsername u)" "upholds sameError (getUidByUsername u)"
  by (auto simp add: getUidByUsername_def Let_def
      intro!: upholds_rules upholds_getUsername split: option.splits)

lemma upholds_getUserProfile:
  "upholds keyedByUid (getUserProfile u)" "upholds sameError (getUserProfile u)"
  by (auto simp add: getUserProfile_def
      intro!: upholds_rules upholds_getProfile upholds_console split: option.splits)

lemma upholds_resolveLogin:
  "upholds keyedByUid (resolveLogin e)" "upholds sameError (resolveLogin e)"
  by (auto simp add: resolveLogin_def Let_def
      intro!: upholds_rules upholds_getUidByUsername upholds_getUserProfile)

lemma upholds_autoRepair:
  "upholds keyedByUid (autoRepair n e u)" "upholds sameError (autoRepair n e u)"
  by (auto simp add: autoRepair_def
       intro!: upholds_rules upholds_console upholds_registerUsername
         upholds_saveUserProfile)

lemma upholds_loginBody:
  "upholds keyedByUid (loginBody e p)" "upholds sameError (loginBody e p)"
  by (auto simp add: loginBody_def
      intro!: upholds_rules upholds_resolveLogin upholds_auth upholds_autoRepair)

lemma upholds_handleLogin: "upholds keyedByUid (handleLogin e p)"
  by (auto simp add: handleLogin_def
      intro!: upholds_rules upholds_loginBody upholds_console upholds_ui)

lemma upholds_handleRegister: "upholds keyedByUid (handleRegister u e p c)"
  by (auto simp add: handleRegister_def
      intro!: upholds_rules upholds_getUidByUsername upholds_registerUsername
        upholds_saveUserProfile upholds_auth upholds_console upholds_ui
      split: option.splits)


section \<open>The statistics of the profile view\<close>

text \<open>
  Claim C1, as the code has it. Given an empty mood collection, each of the three summaries
  (week, month, all time) reports count 0 and the average 0: the number zero, the same value
  a neutral average has, and no separate "no data" value. The count of a summary is 0
  exactly when no record passed its filter, and a single neutral record gives the all-time
  average 0 with count 1; so the count, and only the count, tells "no data" from an average
  of 0, and it is the count that the view tests.
\<close>

theorem stats_empty_collection:
  "stats today [] =
     [\<lparr>label = Week, average = 0, count = 0\<rparr>,
      \<lparr>label = Month, average = 0, count = 0\<rparr>,
      \<lparr>label = AllTime, average = 0, count = 0\<rparr>]
   \<and> list_all (\<lambda>s. \<not> hasData s) (stats today [])
   \<and> (count (stats today moodList ! 0) = 0) = (currentWeekLogs today moodList = [])
   \<and> (count (stats today moodList ! 1) = 0) = (currentMonthLogs today moodList = [])
   \<and> (count (stats today moodList ! 2) = 0) = (moodList = [])
   \<and> (val m = 0 \<longrightarrow>
        average (stats today [m] ! 2) = 0 \<and> count (stats today [m] ! 2) = 1
        \<and> hasData (stats today [m] ! 2))"
  by (simp add: stats_def currentWeekLogs_def currentMonthLogs_def getAverage_def toFixed1_def
      hasData_def)

theorem stats_empty_collection_witness:
  "val exampleNextMon = 0
   \<and> average (stats 1714910400000 [exampleNextMon] ! 2) = 0
   \<and> count (stats 1714910400000 [exampleNextMon] ! 2) = 1
   \<and> hasData (stats 1714910400000 [exampleNextMon] ! 2)
   \<and> map average (stats 1714910400000 []) = [0, 0, 0]
   \<and> map count (stats 1714910400000 []) = [0, 0, 0]
   \<and> map hasData (stats 1714910400000 []) = [False, False, False]"
proof -
  note t = stats_empty_collection
    [where today = 1714910400000 and moodList = "[]" and m = exampleNextMon]
  have v: "val exampleNextMon = 0" by (simp add: exampleNextMon_def)
  have e: "stats 1714910400000 [] =
     [\<lparr>label = Week, average = 0, count = 0\<rparr>,
      \<lparr>label = Month, average = 0, count = 0\<rparr>,
      \<lparr>label = AllTime, average = 0, count = 0\<rparr>]"
    and n: "list_all (\<lambda>s. \<not> hasData s) (stats 1714910400000 [])"
    using t by blast+
  have m: "average (stats 1714910400000 [exampleNextMon] ! 2) = 0
      \<and> count (stats 1714910400000 [exampleNextMon] ! 2) = 1
      \<and> hasData (stats 1714910400000 [exampleNextMon] ! 2)"
    using t v by blast
  have "map hasData (stats 1714910400000 []) = [False, False, False]"
    using n unfolding e by simp
  with v m show ?thesis unfolding e by simp
qed

text \<open>
  The claim as written asks for an average distinct from the number 0 on the empty
  collection; \<open>getAverage\<close> returns 0 there.
\<close>

theorem stats_empty_average_is_zero:
  "map average (stats 1714910400000 []) = [0, 0, 0]"
  by (simp add: stats_def currentWeekLogs_def currentMonthLogs_def getAverage_def)



section \<open>The stores\<close>

text \<open>
  Claim C3. For every user identifier that contains '.' or '@', every record and every
  date: \<open>saveMood\<close> and \<open>deleteMood\<close> return normally and leave everything as it was (no
  request is even sent), and \<open>getUserProfile\<close> and \<open>getUserMoods\<close> return \<open>null\<close> and the empty
  mapping, again normally and without a request. Nothing is thrown, and the two reads
  return what they return for a well-formed identifier without data, whether the store
  answers that read or refuses it: the caller cannot tell the malformed identifier apart.
\<close>

theorem malformed_id_guard:
  assumes "strIncludes userId CHR ''.'' \<or> strIncludes userId CHR ''@''"
  shows "saveMood userId mood w = (Returned (), w)
    \<and> deleteMood userId dateStr w = (Returned (), w)
    \<and> getUserProfile userId w = (Returned None, w)
    \<and> getUserMoods userId w = (Returned Map.empty, w)
    \<and> (v \<noteq> [] \<and> \<not> strIncludes v CHR ''.'' \<and> \<not> strIncludes v CHR ''@''
         \<and> profiles w v = None \<and> moods w v = Map.empty \<longrightarrow>
         fst (getUserProfile v w) = fst (getUserProfile userId w)
         \<and> fst (getUserMoods v w) = fst (getUserMoods userId w))"
proof -
  have 1: "saveMood userId mood w = (Returned (), w)
    \<and> deleteMood userId dateStr w = (Returned (), w)
    \<and> getUserProfile userId w = (Returned None, w)
    \<and> getUserMoods userId w = (Returned Map.empty, w)"
    using assms
    by (auto simp add: saveMood_def deleteMood_def getUserProfile_def getUserMoods_def
        returns_def)
  have 2: "fst (getUserProfile v w) = Returned None \<and> fst (getUserMoods v w) = Returned Map.empty"
    if "v \<noteq> []" "\<not> strIncludes v CHR ''.''" "\<not> strIncludes v CHR ''@''"
      "profiles w v = None" "moods w v = Map.empty"
    using that
    by (cases "rejects w (DbGet (ProfilePath v))"; cases "rejects w (DbGet (MoodsPath v))")
      (simp_all add: getUserProfile_def getUserMoods_def sdk_defs async_defs)
  from 1 2 show ?thesis by simp
qed

theorem malformed_id_guard_witness:
  "(strIncludes ''a.b'' CHR ''.'' \<or> strIncludes ''a.b'' CHR ''@'')
   \<and> (strIncludes ''a@b'' CHR ''.'' \<or> strIncludes ''a@b'' CHR ''@'')
   \<and> saveMood ''a.b'' exampleMon emptyWorld = (Returned (), emptyWorld)
   \<and> saveMood ''a@b'' exampleMon emptyWorld = (Returned (), emptyWorld)
   \<and> deleteMood ''a.b'' ''2024-04-29'' emptyWorld = (Returned (), emptyWorld)
   \<and> getUserProfile ''a.b'' emptyWorld = (Returned None, emptyWorld)
   \<and> getUserMoods ''a@b'' emptyWorld = (Returned Map.empty, emptyWorld)
   \<and> fst (getUserProfile ''u1'' emptyWorld) = fst (getUserProfile ''a.b'' emptyWorld)
   \<and> fst (getUserMoods ''u1'' emptyWorld) = fst (getUserMoods ''a.b'' emptyWorld)"
proof -
  have 1: "strIncludes ''a.b'' CHR ''.'' \<or> strIncludes ''a.b'' CHR ''@''"
    and 2: "strIncludes ''a@b'' CHR ''.'' \<or> strIncludes ''a@b'' CHR ''@''"
    by (simp_all add: strIncludes_def)
  have 3: "''u1'' \<noteq> [] \<and> \<not> strIncludes ''u1'' CHR ''.'' \<and> \<not> strIncludes ''u1'' CHR ''@''
    \<and> profiles emptyWorld ''u1'' = None \<and> moods emptyWorld ''u1'' = Map.empty"
    by (simp add: strIncludes_def emptyWorld_def)
  note a = malformed_id_guard [OF 1, where mood = exampleMon and dateStr = "''2024-04-29''"
        and w = emptyWorld and v = "''u1''"]
  note b = malformed_id_guard [OF 2, where mood = exampleMon and dateStr = "''2024-04-29''"
        and w = emptyWorld and v = "''u1''"]
  note a1 = a [THEN conjunct1]
  note a2 = a [THEN conjunct2, THEN conjunct1]
  note a3 = a [THEN conjunct2, THEN conjunct2, THEN conjunct1]
  note a5 = a [THEN conjunct2, THEN conjunct2, THEN conjunct2, THEN conjunct2, THEN mp, OF 3]
  note b1 = b [THEN conjunct1]
  note b4 = b [THEN conjunct2, THEN conjunct2, THEN conjunct2, THEN conjunct1]
  show ?thesis
    by (intro conjI) (rule 1 2 a1 a2 a3 b1 b4 a5 [THEN conjunct1] a5 [THEN conjunct2])+
qed








text \<open>
  Claim C9. The empty identifier is guarded on the read side only. \<open>getUserProfile\<close>,
  \<open>getUserMoods\<close> and \<open>subscribeToMoods\<close> treat it as malformed: \<open>null\<close>, the empty mapping,
  and one call with the empty mapping and the function that does nothing, all without a
  request. \<open>saveMood\<close> and \<open>deleteMood\<close> test only for '.' and '@': with the empty identifier
  they are the store's write and removal themselves, always send the request, at the path
  \<open>users//moods/<date>\<close>, and a granted write stores the record.
\<close>

theorem empty_id_guard_asymmetry:
  "getUserProfile [] w = (Returned None, w)
   \<and> getUserMoods [] w = (Returned Map.empty, w)
   \<and> subscribeToMoods [] callback w
       = (DoesNothing, w\<lparr>calls := calls w @ [(callback, Map.empty)]\<rparr>)
   \<and> saveMood [] mood w = setMood [] (date mood) mood w
   \<and> deleteMood [] dateStr w = removeMood [] dateStr w
   \<and> issued (snd (saveMood [] mood w)) = issued w @ [DbSet (MoodPath [] (date mood))]
   \<and> issued (snd (deleteMood [] dateStr w)) = issued w @ [DbRemove (MoodPath [] dateStr)]
   \<and> pathString (MoodPath [] dateStr) = ''users//moods/'' @ dateStr
   \<and> (rejects w (DbSet (MoodPath [] (date mood))) = None \<longrightarrow>
        fst (saveMood [] mood w) = Returned () \<and>
        moods (snd (saveMood [] mood w)) [] (date mood) = Some mood)
   \<and> (rejects w (DbRemove (MoodPath [] dateStr)) = None \<longrightarrow>
        fst (deleteMood [] dateStr w) = Returned () \<and>
        moods (snd (deleteMood [] dateStr w)) [] dateStr = None)"
proof -
  have s: "saveMood [] mood w = setMood [] (date mood) mood w"
    and d: "deleteMood [] dateStr w = removeMood [] dateStr w"
    by (simp_all add: saveMood_def deleteMood_def strIncludes_def)
  have "getUserProfile [] w = (Returned None, w)"
    "getUserMoods [] w = (Returned Map.empty, w)"
    "subscribeToMoods [] callback w
       = (DoesNothing, w\<lparr>calls := calls w @ [(callback, Map.empty)]\<rparr>)"
    by (simp_all add: getUserProfile_def getUserMoods_def subscribeToMoods_def returns_def)
  moreover have "issued (snd (setMood [] (date mood) mood w))
      = issued w @ [DbSet (MoodPath [] (date mood))]"
    by (simp add: setMood_eq notify_fields split: option.splits)
  moreover have "issued (snd (removeMood [] dateStr w))
      = issued w @ [DbRemove (MoodPath [] dateStr)]"
    by (simp add: removeMood_eq notify_fields split: option.splits)
  moreover have "pathString (MoodPath [] dateStr) = ''users//moods/'' @ dateStr"
    by (simp add: pathString_def)
  moreover have "rejects w (DbSet (MoodPath [] (date mood))) = None \<longrightarrow>
        fst (setMood [] (date mood) mood w) = Returned () \<and>
        moods (snd (setMood [] (date mood) mood w)) [] (date mood) = Some mood"
    by (simp add: setMood_eq notify_fields)
  moreover have "rejects w (DbRemove (MoodPath [] dateStr)) = None \<longrightarrow>
        fst (removeMood [] dateStr w) = Returned () \<and>
        moods (snd (removeMood [] dateStr w)) [] dateStr = None"
    by (simp add: removeMood_eq notify_fields)
  ultimately show ?thesis unfolding s d by blast
qed

theorem empty_id_guard_asymmetry_witness:
  "rejects emptyWorld (DbSet (MoodPath [] (date exampleMon))) = None
   \<and> rejects emptyWorld (DbRemove (MoodPath [] ''2024-04-29'')) = None
   \<and> fst (saveMood [] exampleMon emptyWorld) = Returned ()
   \<and> moods (snd (saveMood [] exampleMon emptyWorld)) [] ''2024-04-29'' = Some exampleMon
   \<and> issued (snd (saveMood [] exampleMon emptyWorld)) = [DbSet (MoodPath [] ''2024-04-29'')]
   \<and> fst (deleteMood [] ''2024-04-29'' emptyWorld) = Returned ()
   \<and> getUserMoods [] (snd (saveMood [] exampleMon emptyWorld))
       = (Returned Map.empty, snd (saveMood [] exampleMon emptyWorld))"
proof -
  have r: "rejects emptyWorld (DbSet (MoodPath [] (date exampleMon))) = None"
    "rejects emptyWorld (DbRemove (MoodPath [] ''2024-04-29'')) = None"
    by (simp_all add: emptyWorld_def)
  have e: "issued emptyWorld = []" "date exampleMon = ''2024-04-29''"
    by (simp_all add: emptyWorld_def exampleMon_def)
  note 1 = empty_id_guard_asymmetry
      [where w = emptyWorld and mood = exampleMon and dateStr = "''2024-04-29''"]
  note 2 = empty_id_guard_asymmetry
      [where w = "snd (saveMood [] exampleMon emptyWorld)" and mood = exampleMon
         and dateStr = "''2024-04-29''"]
  have a: "fst (saveMood [] exampleMon emptyWorld) = Returned ()"
    "moods (snd (saveMood [] exampleMon emptyWorld)) [] (date exampleMon) = Some exampleMon"
    "issued (snd (saveMood [] exampleMon emptyWorld))
       = issued emptyWorld @ [DbSet (MoodPath [] (date exampleMon))]"
    "fst (deleteMood [] ''2024-04-29'' emptyWorld) = Returned ()"
    using 1 r by blast+
  have b: "getUserMoods [] (snd (saveMood [] exampleMon emptyWorld))
       = (Returned Map.empty, snd (saveMood [] exampleMon emptyWorld))"
    using 2 by blast
  show ?thesis using r a b unfolding e by simp
qed

section \<open>Signing in and registering\<close>

text \<open>
  Claim C4. A username (no '@' in the input) whose mapping holds a value with '@' is a
  legacy mapping; the sign-in is made with that value. Whenever it succeeds with a user:
  \<open>handleLogin\<close> returns normally, shows no error and ends loading, whatever becomes of the
  repair. If the store takes the first write, the mapping of the normalized username is
  the user's uid; if it also takes the second, and the uid has no '.' and no '@', the
  profile \<open>{uid, email, username}\<close> is stored at the uid. If the store refuses the first
  write, mapping and profiles stay and the error is logged; if it refuses the second, the
  profiles stay and the error is logged; for a uid with '.' or '@' \<open>saveUserProfile\<close> skips
  the write and logs a warning.
\<close>

theorem legacy_repair_on_login:
  assumes "\<not> strIncludes email' CHR ''@''"
    and "n = trim (toLowerCase (trim email'))"
    and "rejects w (DbGet (UsernamePath n)) = None"
    and "usernames w n = Some legacyEmail" "strIncludes legacyEmail CHR ''@''"
    and "rejects w (AuthSignIn legacyEmail password) = None"
    and "authUser w (AuthSignIn legacyEmail password) = Some userUid"
    and "w' = snd (handleLogin email' password w)"
  shows "fst (handleLogin email' password w) = Returned ()
    \<and> error w' = NoMessage \<and> loading w' = False
    \<and> (rejects w (DbSet (UsernamePath n)) = None \<longrightarrow>
          usernames w' = (usernames w)(n \<mapsto> userUid))
    \<and> (rejects w (DbSet (UsernamePath n)) = None
          \<and> rejects w (DbSet (ProfilePath userUid)) = None
          \<and> \<not> strIncludes userUid CHR ''.'' \<and> \<not> strIncludes userUid CHR ''@'' \<longrightarrow>
          profiles w' = (profiles w)(userUid \<mapsto>
             \<lparr>uid = userUid, username = trim email', email = legacyEmail\<rparr>))
    \<and> (\<forall>msg. rejects w (DbSet (UsernamePath n)) = Some msg \<longrightarrow>
          usernames w' = usernames w \<and> profiles w' = profiles w \<and>
          last (console w') =
            ConsoleError [Str ''Failed to auto-fix legacy username:'', Exn (SdkError msg)])
    \<and> (\<forall>msg. rejects w (DbSet (UsernamePath n)) = None
          \<and> \<not> strIncludes userUid CHR ''.'' \<and> \<not> strIncludes userUid CHR ''@''
          \<and> rejects w (DbSet (ProfilePath userUid)) = Some msg \<longrightarrow>
          profiles w' = profiles w \<and>
          last (console w') =
            ConsoleError [Str ''Failed to auto-fix legacy username:'', Exn (SdkError msg)])
    \<and> (rejects w (DbSet (UsernamePath n)) = None
          \<and> (strIncludes userUid CHR ''.'' \<or> strIncludes userUid CHR ''@'') \<longrightarrow>
          profiles w' = profiles w \<and>
          ConsoleWarn [Str ''Attempted to save profile with invalid path characters, skipping:'',
                       Str userUid] \<in> set (console w'))"
proof -
  define w1 where "w1 = w\<lparr>loading := True, error := NoMessage\<rparr>"
  have t: "truthy (Some legacyEmail)"
    using assms(5) by (auto simp add: truthy_def strIncludes_def)
  have r: "resolveLogin email' w1 =
     (Returned (legacyEmail, True), w1\<lparr>issued := issued w1 @ [DbGet (UsernamePath n)]\<rparr>)"
    using assms(1-5) t
    by (simp add: resolveLogin_def getUidByUsername_def sdk_defs async_defs Let_def w1_def)
  have h: "handleLogin email' password w =
     tryFinally
       (tryCatch (loginBody email' password)
          (\<lambda>err. seq (consoleError [Exn err]) (setError LoginFailed)))
       (setLoading False) w1"
    by (simp add: handleLogin_def w1_def seq_def await_def setLoading_def setError_def modify_def)
  have f: "rejects w1 = rejects w" "authUser w1 = authUser w" "usernames w1 = usernames w"
    "profiles w1 = profiles w" "error w1 = NoMessage"
    by (simp_all add: w1_def)
  show ?thesis
    unfolding assms(8) h
    using assms(5-7) f
    apply (cases "rejects w (DbSet (UsernamePath n))";
           cases "rejects w (DbSet (ProfilePath userUid))")
       apply (simp_all add: r loginBody_def tryFinally_def tryCatch_def await_def autoRepair_def
          registerUsername_def saveUserProfile_def sdk_defs async_defs assms(2) [symmetric])
    done
qed

text \<open>
  Signing in as \<open>Alice\<close> where \<open>alice\<close> maps to \<open>alice@x.y\<close>: with a store that takes the
  writes, and with one that refuses the write of the mapping.
\<close>

theorem legacy_repair_on_login_witness:
  "usernames legacyWorld ''alice'' = Some ''alice@x.y''
   \<and> error (snd (handleLogin ''Alice'' ''pw'' legacyWorld)) = NoMessage
   \<and> usernames (snd (handleLogin ''Alice'' ''pw'' legacyWorld)) ''alice'' = Some ''uid1''
   \<and> profiles (snd (handleLogin ''Alice'' ''pw'' legacyWorld)) ''uid1''
       = Some \<lparr>uid = ''uid1'', username = ''Alice'', email = ''alice@x.y''\<rparr>
   \<and> rejects refusingWorld (DbSet (UsernamePath ''alice'')) = Some ''denied''
   \<and> fst (handleLogin ''Alice'' ''pw'' refusingWorld) = Returned ()
   \<and> error (snd (handleLogin ''Alice'' ''pw'' refusingWorld)) = NoMessage
   \<and> usernames (snd (handleLogin ''Alice'' ''pw'' refusingWorld)) ''alice''
       = Some ''alice@x.y''
   \<and> last (console (snd (handleLogin ''Alice'' ''pw'' refusingWorld)))
       = ConsoleError [Str ''Failed to auto-fix legacy username:'', Exn (SdkError ''denied'')]"
proof -
  have i: "\<not> strIncludes ''Alice'' CHR ''@''" "strIncludes ''alice@x.y'' CHR ''@''"
    "\<not> strIncludes ''uid1'' CHR ''.''" "\<not> strIncludes ''uid1'' CHR ''@''"
    by (simp_all add: strIncludes_def)
  have n: "''alice'' = trim (toLowerCase (trim ''Alice''))" "trim ''Alice'' = ''Alice''"
    by code_simp+
  have l: "rejects legacyWorld (DbGet (UsernamePath ''alice'')) = None"
    "usernames legacyWorld ''alice'' = Some ''alice@x.y''"
    "rejects legacyWorld (AuthSignIn ''alice@x.y'' ''pw'') = None"
    "authUser legacyWorld (AuthSignIn ''alice@x.y'' ''pw'') = Some ''uid1''"
    "rejects legacyWorld (DbSet (UsernamePath ''alice'')) = None"
    "rejects legacyWorld (DbSet (ProfilePath ''uid1'')) = None"
    "profiles legacyWorld = Map.empty"
    by (simp_all add: legacyWorld_def emptyWorld_def)
  have q: "rejects refusingWorld (DbGet (UsernamePath ''alice'')) = None"
    "usernames refusingWorld ''alice'' = Some ''alice@x.y''"
    "rejects refusingWorld (AuthSignIn ''alice@x.y'' ''pw'') = None"
    "authUser refusingWorld (AuthSignIn ''alice@x.y'' ''pw'') = Some ''uid1''"
    "rejects refusingWorld (DbSet (UsernamePath ''alice'')) = Some ''denied''"
    by (simp_all add: refusingWorld_def legacyWorld_def emptyWorld_def)
  note 1 = legacy_repair_on_login [OF i(1) n(1) l(1) l(2) i(2) l(3) l(4) refl]
  note 2 = legacy_repair_on_login [OF i(1) n(1) q(1) q(2) i(2) q(3) q(4) refl]
  show ?thesis using 1 2 by (simp add: i n(2) l q)
qed




text \<open>
  Claim C10. Every profile that \<open>handleLogin\<close> (the legacy repair) or \<open>handleRegister\<close>
  writes lies under the key equal to its own \<open>uid\<close> field: a profile found in the store
  after either of them was there before, unchanged, or has \<open>uid\<close> equal to its key. So if
  every profile lay under its uid before, every profile does afterwards.
\<close>

theorem profile_saved_under_own_uid:
  "(profiles (snd (handleLogin e p w)) k = Some x \<longrightarrow> profiles w k = Some x \<or> uid x = k)
   \<and> (profiles (snd (handleRegister u e p c w)) k = Some x \<longrightarrow>
        profiles w k = Some x \<or> uid x = k)
   \<and> ((\<forall>k x. profiles w k = Some x \<longrightarrow> uid x = k) \<longrightarrow>
        (\<forall>k x. profiles (snd (handleLogin e p w)) k = Some x \<longrightarrow> uid x = k) \<and>
        (\<forall>k x. profiles (snd (handleRegister u e p c w)) k = Some x \<longrightarrow> uid x = k))"
  using upholds_handleLogin [of e p] upholds_handleRegister [of u e p c]
  unfolding upholds_def keyedByUid_def by blast

text \<open>Registering \<open>alice\<close>, and repairing her legacy mapping: the profile lies under \<open>uid1\<close>.\<close>

theorem profile_saved_under_own_uid_witness:
  "profiles (snd (handleRegister ''alice'' ''a@x.y'' ''pw'' ''pw'' emptyWorld)) ''uid1''
     = Some \<lparr>uid = ''uid1'', username = ''alice'', email = ''a@x.y''\<rparr>
   \<and> profiles emptyWorld ''uid1'' = None
   \<and> uid \<lparr>uid = ''uid1'', username = ''alice'', email = ''a@x.y''\<rparr> = ''uid1''
   \<and> profiles (snd (handleLogin ''Alice'' ''pw'' legacyWorld)) ''uid1''
     = Some \<lparr>uid = ''uid1'', username = ''Alice'', email = ''alice@x.y''\<rparr>
   \<and> profiles legacyWorld ''uid1'' = None
   \<and> uid \<lparr>uid = ''uid1'', username = ''Alice'', email = ''alice@x.y''\<rparr> = ''uid1''"
proof -
  have n: "trim (toLowerCase ''alice'') = ''alice''" "trim ''Alice'' = ''Alice''"
    "trim (toLowerCase ''Alice'') = ''alice''"
    by code_simp+
  have 1: "profiles (snd (handleRegister ''alice'' ''a@x.y'' ''pw'' ''pw'' emptyWorld)) ''uid1''
     = Some \<lparr>uid = ''uid1'', username = ''alice'', email = ''a@x.y''\<rparr>"
    by (simp add: n handleRegister_def getUidByUsername_def registerUsername_def
       saveUserProfile_def Let_def truthy_def strIncludes_def emptyWorld_def
       sdk_defs async_defs)
  have 2: "profiles (snd (handleLogin ''Alice'' ''pw'' legacyWorld)) ''uid1''
     = Some \<lparr>uid = ''uid1'', username = ''Alice'', email = ''alice@x.y''\<rparr>"
    by (simp add: n handleLogin_def loginBody_def resolveLogin_def autoRepair_def
       getUidByUsername_def
       registerUsername_def saveUserProfile_def Let_def truthy_def strIncludes_def
       legacyWorld_def emptyWorld_def sdk_defs async_defs)
  have 3: "profiles emptyWorld ''uid1'' = None" "profiles legacyWorld ''uid1'' = None"
    by (simp_all add: legacyWorld_def emptyWorld_def)
  note 4 = profile_saved_under_own_uid
    [where w = emptyWorld and e = "''a@x.y''" and p = "''pw''" and u = "''alice''"
       and c = "''pw''" and k = "''uid1''"
       and x = "\<lparr>uid = ''uid1'', username = ''alice'', email = ''a@x.y''\<rparr>"]
  note 5 = profile_saved_under_own_uid
    [where w = legacyWorld and e = "''Alice''" and p = "''pw''" and k = "''uid1''"
       and x = "\<lparr>uid = ''uid1'', username = ''Alice'', email = ''alice@x.y''\<rparr>"]
  have 6: "uid \<lparr>uid = ''uid1'', username = ''alice'', email = ''a@x.y''\<rparr> = ''uid1''"
    using 1 3(1) 4 by auto
  have 7: "uid \<lparr>uid = ''uid1'', username = ''Alice'', email = ''alice@x.y''\<rparr> = ''uid1''"
    using 2 3(2) 5 by auto
  show ?thesis using 1 2 3 6 7 by blast
qed

end
